theory Spec2Isabelle
  imports Main "HOL-Library.Word" "HOL-Library.Multiset"
begin

section \<open>Data model of main.c\<close>

text \<open>
  The program is a single C file. Its file-scope variables form the state; every call
  that leaves the file (applibs GPIO, the epoll/timerfd utilities, the handler call made
  by the dispatcher) is appended to a log of calls, so that a statement about what a
  handler writes to a line is a statement about the log.
\<close>

datatype GPIO_Value = GPIO_Value_Low | GPIO_Value_High

text \<open>The board's pin names (avnet_mt3620_sk.h); only their identity is used.\<close>

datatype pin =
    AVNET_MT3620_SK_USER_BUTTON_A
  | AVNET_MT3620_SK_USER_LED_GREEN
  | AVNET_MT3620_SK_GPIO31
  | AVNET_MT3620_SK_GPIO32
  | AVNET_MT3620_SK_GPIO33
  | AVNET_MT3620_SK_GPIO34

text \<open>The two \<open>EventData\<close> objects, named after the handler each one is bound to.\<close>

datatype event_data = buttonEventData | motorTurnEventData

text \<open>
  One entry per external call, with its arguments. The open calls also record the
  descriptor they returned, and \<open>CloseFdAndPrintError_call\<close> records whether the
  release inside it failed: that function returns nothing, so the flag never reaches
  the program.
\<close>

datatype io_event =
    sigaction_SIGTERM_call
  | CreateEpollFd_call int
  | GPIO_OpenAsInput_call pin int
  | GPIO_OpenAsOutput_call pin GPIO_Value int
  | CreateTimerFdAndAddToEpoll_call int int int event_data int
  | ConsumeTimerFdEvent_call int
  | GPIO_GetValue_call int
  | GPIO_SetValue_call int GPIO_Value
  | WaitForEventAndCallHandler_call int
  | eventHandler_call event_data
  | CloseFdAndPrintError_call int string bool

text \<open>
  The file-scope variables, in the order of their declarations. \<open>stepNumber\<close> is a C
  \<open>int\<close>: a 32-bit word read as two's complement by \<open>sint\<close>; its \<open>+\<close> wraps around.
\<close>

record state =
  buttonPollTimerFd :: int
  epollFd :: int
  button_A_GpioFd :: int
  greenLEDFd :: int
  stepperMotorTimerFd :: int
  terminationRequired :: bool
  buttonState :: GPIO_Value
  isMotorTurning :: bool
  stepNumber :: "32 word"
  IN4 :: int
  IN3 :: int
  IN2 :: int
  IN1 :: int
  calls :: "io_event list"

definition initial_state :: state where
  "initial_state =
     \<lparr> buttonPollTimerFd = - 1, epollFd = - 1, button_A_GpioFd = - 1, greenLEDFd = - 1,
       stepperMotorTimerFd = - 1, terminationRequired = False,
       buttonState = GPIO_Value_High, isMotorTurning = False, stepNumber = 0,
       IN4 = - 1, IN3 = - 1, IN2 = - 1, IN1 = - 1, calls = [] \<rparr>"

section \<open>The handlers\<close>

definition log_call :: "io_event \<Rightarrow> state \<Rightarrow> state" where
  "log_call e s = s\<lparr>calls := calls s @ [e]\<rparr>"

text \<open>\<open>GPIO_SetValue\<close>: every call site discards the returned status.\<close>

definition GPIO_SetValue :: "int \<Rightarrow> GPIO_Value \<Rightarrow> state \<Rightarrow> state" where
  "GPIO_SetValue fd v s = log_call (GPIO_SetValue_call fd v) s"

definition TerminationHandler :: "state \<Rightarrow> state" where
  "TerminationHandler s = s\<lparr>terminationRequired := True\<rparr>"

text \<open>
  \<open>ButtonTimerEventHandler\<close>. The environment supplies the status returned by
  \<open>ConsumeTimerFdEvent\<close>, the status returned by \<open>GPIO_GetValue\<close> and the level it
  stored in \<open>newButtonState\<close>.
\<close>

definition ButtonTimerEventHandler :: "int \<Rightarrow> int \<Rightarrow> GPIO_Value \<Rightarrow> state \<Rightarrow> state" where
  "ButtonTimerEventHandler consumeResult result newButtonState s0 =
     (let s1 = log_call (ConsumeTimerFdEvent_call (buttonPollTimerFd s0)) s0 in
      if consumeResult \<noteq> 0 then s1\<lparr>terminationRequired := True\<rparr>
      else
        let s2 = log_call (GPIO_GetValue_call (button_A_GpioFd s1)) s1 in
        if result \<noteq> 0 then s2\<lparr>terminationRequired := True\<rparr>
        else if newButtonState = GPIO_Value_High then
          GPIO_SetValue (greenLEDFd s2) GPIO_Value_High
            (s2\<lparr>isMotorTurning := False, stepNumber := 0\<rparr>)
        else
          GPIO_SetValue (greenLEDFd s2) GPIO_Value_Low (s2\<lparr>isMotorTurning := True\<rparr>))"

text \<open>The four writes of one \<open>case\<close> of the switch, in the order IN1, IN2, IN3, IN4.\<close>

definition set_IN_lines ::
  "GPIO_Value \<Rightarrow> GPIO_Value \<Rightarrow> GPIO_Value \<Rightarrow> GPIO_Value \<Rightarrow> state \<Rightarrow> state" where
  "set_IN_lines v1 v2 v3 v4 s =
     GPIO_SetValue (IN4 s) v4
       (GPIO_SetValue (IN3 s) v3
         (GPIO_SetValue (IN2 s) v2
           (GPIO_SetValue (IN1 s) v1 s)))"

text \<open>
  \<open>StepperMotorEventHandler\<close>. The \<open>default\<close> case of the switch writes nothing; the
  increment and the wrap at 4 follow the switch in every case.
\<close>

definition StepperMotorEventHandler :: "int \<Rightarrow> state \<Rightarrow> state" where
  "StepperMotorEventHandler consumeResult s0 =
     (let s1 = log_call (ConsumeTimerFdEvent_call (stepperMotorTimerFd s0)) s0 in
      if consumeResult \<noteq> 0 then s1\<lparr>terminationRequired := True\<rparr>
      else if isMotorTurning s1 then
        let s2 =
              (if stepNumber s1 = 0 then
                 set_IN_lines GPIO_Value_Low GPIO_Value_High GPIO_Value_High GPIO_Value_High s1
               else if stepNumber s1 = 1 then
                 set_IN_lines GPIO_Value_High GPIO_Value_Low GPIO_Value_High GPIO_Value_High s1
               else if stepNumber s1 = 2 then
                 set_IN_lines GPIO_Value_High GPIO_Value_High GPIO_Value_Low GPIO_Value_High s1
               else if stepNumber s1 = 3 then
                 set_IN_lines GPIO_Value_High GPIO_Value_High GPIO_Value_High GPIO_Value_Low s1
               else s1);
            s3 = s2\<lparr>stepNumber := stepNumber s2 + 1\<rparr>
        in if stepNumber s3 = 4 then s3\<lparr>stepNumber := 0\<rparr> else s3
      else
        set_IN_lines GPIO_Value_High GPIO_Value_High GPIO_Value_High GPIO_Value_High s1)"

section \<open>Reading the log\<close>

text \<open>The calls a step added to the log.\<close>

definition new_calls :: "state \<Rightarrow> state \<Rightarrow> io_event list" where
  "new_calls s s' = drop (length (calls s)) (calls s')"

text \<open>The line writes among a list of calls: descriptor and level, in order.\<close>

fun gpio_writes :: "io_event list \<Rightarrow> (int \<times> GPIO_Value) list" where
  "gpio_writes [] = []"
| "gpio_writes (GPIO_SetValue_call fd v # es) = (fd, v) # gpio_writes es"
| "gpio_writes (_ # es) = gpio_writes es"

text \<open>The row of the excitation table for step \<open>k\<close>: line \<open>k + 1\<close> low, the others high.\<close>

definition excitation :: "state \<Rightarrow> int \<Rightarrow> (int \<times> GPIO_Value) list" where
  "excitation s k =
     [(IN1 s, if k = 0 then GPIO_Value_Low else GPIO_Value_High),
      (IN2 s, if k = 1 then GPIO_Value_Low else GPIO_Value_High),
      (IN3 s, if k = 2 then GPIO_Value_Low else GPIO_Value_High),
      (IN4 s, if k = 3 then GPIO_Value_Low else GPIO_Value_High)]"

definition active_count :: "(int \<times> GPIO_Value) list \<Rightarrow> nat" where
  "active_count ws = length (filter (\<lambda>w. snd w = GPIO_Value_Low) ws)"

definition step_in_range :: "state \<Rightarrow> bool" where
  "step_in_range s \<longleftrightarrow> 0 \<le> sint (stepNumber s) \<and> sint (stepNumber s) \<le> 3"


text \<open>
  While the motor is not turning the step number is 0: the invariant behind the claim
  that an idle motor never advances.
\<close>

definition idle_at_zero :: "state \<Rightarrow> bool" where
  "idle_at_zero s \<longleftrightarrow> isMotorTurning s \<or> stepNumber s = 0"

text \<open>\<open>n\<close> consecutive invocations of the stepper handler, each consuming its timer.\<close>

primrec stepper_ticks :: "nat \<Rightarrow> state \<Rightarrow> state" where
  "stepper_ticks 0 s = s"
| "stepper_ticks (Suc n) s = StepperMotorEventHandler 0 (stepper_ticks n s)"

section \<open>Dispatch and the run loop\<close>

text \<open>
  A dispatch is the call \<open>eventData->eventHandler(eventData)\<close> on one of the two
  \<open>EventData\<close> objects, together with what the environment answers to the handler's
  calls during it.
\<close>

datatype dispatch = ButtonTick int int GPIO_Value | StepperTick int

fun eventData_of :: "dispatch \<Rightarrow> event_data" where
  "eventData_of (ButtonTick c r v) = buttonEventData"
| "eventData_of (StepperTick c) = motorTurnEventData"

fun eventHandler :: "dispatch \<Rightarrow> state \<Rightarrow> state" where
  "eventHandler (ButtonTick c r v) s = ButtonTimerEventHandler c r v s"
| "eventHandler (StepperTick c) s = StepperMotorEventHandler c s"

text \<open>
  Modelled from the spec: \<open>WaitForEventAndCallHandler\<close> is declared in
  epoll_timerfd_utilities.h and its body is not part of main.c. The spec describes it as
  blocking until a registered timer is ready and then dispatching to the handler bound
  to it, one handler per readiness event, and as able to fail. A call therefore either
  fails (non-zero status, no handler run), or runs one handler and returns 0; a return
  of 0 with no handler run (a wait cut short by the signal) is admitted as well, so that
  what is proved holds with and without it.
\<close>

datatype wait_outcome = wait_failed | wait_no_event | wait_ready dispatch

definition WaitForEventAndCallHandler :: "wait_outcome \<Rightarrow> state \<Rightarrow> int \<times> state" where
  "WaitForEventAndCallHandler w s0 =
     (let s1 = log_call (WaitForEventAndCallHandler_call (epollFd s0)) s0 in
      case w of
        wait_failed \<Rightarrow> (- 1, s1)
      | wait_no_event \<Rightarrow> (0, s1)
      | wait_ready d \<Rightarrow> (0, eventHandler d (log_call (eventHandler_call (eventData_of d)) s1)))"

text \<open>
  One pass through the body of the loop in \<open>main\<close>. The flag says whether SIGTERM is
  delivered during the pass, which runs \<open>TerminationHandler\<close>; as no handler reads
  \<open>terminationRequired\<close>, the moment of delivery within the pass makes no difference.
\<close>

definition main_loop_body :: "bool \<times> wait_outcome \<Rightarrow> state \<Rightarrow> state" where
  "main_loop_body it s0 =
     (let s1 = (if fst it then TerminationHandler s0 else s0);
          (r, s2) = WaitForEventAndCallHandler (snd it) s1
      in if r \<noteq> 0 then s2\<lparr>terminationRequired := True\<rparr> else s2)"

text \<open>
  \<open>while (!terminationRequired) { ... }\<close> against a finite list of passes supplied by
  the environment: \<open>None\<close> when the list ends with the loop still running.
\<close>

fun main_loop :: "(bool \<times> wait_outcome) list \<Rightarrow> state \<Rightarrow> state option" where
  "main_loop [] s = (if terminationRequired s then Some s else None)"
| "main_loop (it # its) s =
     (if terminationRequired s then Some s else main_loop its (main_loop_body it s))"

section \<open>Start-up, shutdown and \<open>main\<close>\<close>

text \<open>What each open call of \<open>InitPeripheralsAndHandlers\<close> returns, in call order.\<close>

record init_results =
  CreateEpollFd_result :: int
  open_button_A_result :: int
  create_buttonPollTimer_result :: int
  open_greenLED_result :: int
  open_IN4_result :: int
  open_IN3_result :: int
  open_IN2_result :: int
  open_IN1_result :: int
  create_stepperMotorTimer_result :: int

definition InitPeripheralsAndHandlers :: "init_results \<Rightarrow> state \<Rightarrow> int \<times> state" where
  "InitPeripheralsAndHandlers env s0 =
     (let s1 = log_call sigaction_SIGTERM_call s0;
          s2 = log_call (CreateEpollFd_call (CreateEpollFd_result env))
                 (s1\<lparr>epollFd := CreateEpollFd_result env\<rparr>)
      in if epollFd s2 < 0 then (- 1, s2) else
      let s3 = log_call (GPIO_OpenAsInput_call AVNET_MT3620_SK_USER_BUTTON_A
                          (open_button_A_result env))
                 (s2\<lparr>button_A_GpioFd := open_button_A_result env\<rparr>)
      in if button_A_GpioFd s3 < 0 then (- 1, s3) else
      let s4 = log_call (CreateTimerFdAndAddToEpoll_call (epollFd s3) 0 1000000
                          buttonEventData (create_buttonPollTimer_result env))
                 (s3\<lparr>buttonPollTimerFd := create_buttonPollTimer_result env\<rparr>)
      in if buttonPollTimerFd s4 < 0 then (- 1, s4) else
      let s5 = log_call (GPIO_OpenAsOutput_call AVNET_MT3620_SK_USER_LED_GREEN GPIO_Value_High
                          (open_greenLED_result env))
                 (s4\<lparr>greenLEDFd := open_greenLED_result env\<rparr>)
      in if greenLEDFd s5 < 0 then (- 1, s5) else
      let s6 = log_call (GPIO_OpenAsOutput_call AVNET_MT3620_SK_GPIO34 GPIO_Value_High
                          (open_IN4_result env))
                 (s5\<lparr>IN4 := open_IN4_result env\<rparr>)
      in if IN4 s6 < 0 then (- 1, s6) else
      let s7 = log_call (GPIO_OpenAsOutput_call AVNET_MT3620_SK_GPIO31 GPIO_Value_High
                          (open_IN3_result env))
                 (s6\<lparr>IN3 := open_IN3_result env\<rparr>)
      in if IN3 s7 < 0 then (- 1, s7) else
      let s8 = log_call (GPIO_OpenAsOutput_call AVNET_MT3620_SK_GPIO33 GPIO_Value_High
                          (open_IN2_result env))
                 (s7\<lparr>IN2 := open_IN2_result env\<rparr>)
      in if IN2 s8 < 0 then (- 1, s8) else
      let s9 = log_call (GPIO_OpenAsOutput_call AVNET_MT3620_SK_GPIO32 GPIO_Value_High
                          (open_IN1_result env))
                 (s8\<lparr>IN1 := open_IN1_result env\<rparr>)
      in if IN1 s9 < 0 then (- 1, s9) else
      let s10 = log_call (CreateTimerFdAndAddToEpoll_call (epollFd s9) 0 2048000
                           motorTurnEventData (create_stepperMotorTimer_result env))
                  (s9\<lparr>stepperMotorTimerFd := create_stepperMotorTimer_result env\<rparr>)
      in if stepperMotorTimerFd s10 < 0 then (- 1, s10) else (0, s10))"

text \<open>
  \<open>CloseFdAndPrintError\<close> returns nothing. \<open>failing\<close> lists the descriptors whose
  release fails; the log keeps the outcome, the program never sees it.
\<close>

definition CloseFdAndPrintError :: "int list \<Rightarrow> int \<Rightarrow> string \<Rightarrow> state \<Rightarrow> state" where
  "CloseFdAndPrintError failing fd fdName s =
     log_call (CloseFdAndPrintError_call fd fdName (fd \<in> set failing)) s"

definition ClosePeripheralsAndHandlers :: "int list \<Rightarrow> state \<Rightarrow> state" where
  "ClosePeripheralsAndHandlers failing s0 =
     (let s1 = CloseFdAndPrintError failing (epollFd s0) ''Epoll'' s0;
          s2 = CloseFdAndPrintError failing (buttonPollTimerFd s1) ''Button A Timer'' s1;
          s3 = CloseFdAndPrintError failing (greenLEDFd s2) ''Green LED'' s2;
          s4 = CloseFdAndPrintError failing (button_A_GpioFd s3) ''Button A GPIO'' s3;
          s5 = CloseFdAndPrintError failing (stepperMotorTimerFd s4)
                 ''Stepper motor timer event'' s4;
          s6 = CloseFdAndPrintError failing (IN1 s5) ''IN1 GPIO'' s5;
          s7 = CloseFdAndPrintError failing (IN2 s6) ''IN2 GPIO'' s6;
          s8 = CloseFdAndPrintError failing (IN3 s7) ''IN3 GPIO'' s7
      in CloseFdAndPrintError failing (IN4 s8) ''IN4 GPIO'' s8)"

text \<open>
  \<open>main\<close>: the exit status and the final state, or \<open>None\<close> while the loop has not
  ended on the passes given.
\<close>

definition main :: "init_results \<Rightarrow> (bool \<times> wait_outcome) list \<Rightarrow> int list \<Rightarrow> (int \<times> state) option" where
  "main env its failing =
     (let (r, s1) = InitPeripheralsAndHandlers env initial_state;
          s2 = (if r \<noteq> 0 then s1\<lparr>terminationRequired := True\<rparr> else s1)
      in case main_loop its s2 of
           None \<Rightarrow> None
         | Some s3 \<Rightarrow> Some (0, ClosePeripheralsAndHandlers failing s3))"

section \<open>More readers of the log\<close>

text \<open>Descriptors handed out by successful open calls, in order.\<close>

fun acquired_fds :: "io_event list \<Rightarrow> int list" where
  "acquired_fds [] = []"
| "acquired_fds (CreateEpollFd_call fd # es) =
     (if 0 \<le> fd then fd # acquired_fds es else acquired_fds es)"
| "acquired_fds (GPIO_OpenAsInput_call p fd # es) =
     (if 0 \<le> fd then fd # acquired_fds es else acquired_fds es)"
| "acquired_fds (GPIO_OpenAsOutput_call p v fd # es) =
     (if 0 \<le> fd then fd # acquired_fds es else acquired_fds es)"
| "acquired_fds (CreateTimerFdAndAddToEpoll_call ep sec nsec d fd # es) =
     (if 0 \<le> fd then fd # acquired_fds es else acquired_fds es)"
| "acquired_fds (_ # es) = acquired_fds es"

text \<open>Descriptor and name of every \<open>CloseFdAndPrintError\<close> call, in order.\<close>

fun close_calls :: "io_event list \<Rightarrow> (int \<times> string) list" where
  "close_calls [] = []"
| "close_calls (CloseFdAndPrintError_call fd n b # es) = (fd, n) # close_calls es"
| "close_calls (_ # es) = close_calls es"

text \<open>Number of handler calls made by the dispatcher, and of its own calls.\<close>

fun dispatches :: "io_event list \<Rightarrow> nat" where
  "dispatches [] = 0"
| "dispatches (eventHandler_call d # es) = Suc (dispatches es)"
| "dispatches (_ # es) = dispatches es"

fun wait_calls :: "io_event list \<Rightarrow> nat" where
  "wait_calls [] = 0"
| "wait_calls (WaitForEventAndCallHandler_call fd # es) = Suc (wait_calls es)"
| "wait_calls (_ # es) = wait_calls es"

text \<open>
  The nine descriptor variables, in the order \<open>InitPeripheralsAndHandlers\<close> assigns
  them and in the order \<open>ClosePeripheralsAndHandlers\<close> passes them on.
\<close>

definition handles_in_open_order :: "state \<Rightarrow> int list" where
  "handles_in_open_order s =
     [epollFd s, button_A_GpioFd s, buttonPollTimerFd s, greenLEDFd s,
      IN4 s, IN3 s, IN2 s, IN1 s, stepperMotorTimerFd s]"

definition handles_in_close_order :: "state \<Rightarrow> int list" where
  "handles_in_close_order s =
     [epollFd s, buttonPollTimerFd s, greenLEDFd s, button_A_GpioFd s,
      stepperMotorTimerFd s, IN1 s, IN2 s, IN3 s, IN4 s]"

text \<open>
  Concrete inputs used below: a start-up in which every open succeeds, one in which the
  first open fails, the state after the successful start-up, and that state with the
  motor turning at step 2.
\<close>

definition all_open :: init_results where
  "all_open =
     \<lparr> CreateEpollFd_result = 3, open_button_A_result = 4, create_buttonPollTimer_result = 5,
       open_greenLED_result = 6, open_IN4_result = 7, open_IN3_result = 8,
       open_IN2_result = 9, open_IN1_result = 10, create_stepperMotorTimer_result = 11 \<rparr>"

definition epoll_fails :: init_results where
  "epoll_fails = all_open\<lparr>CreateEpollFd_result := - 1\<rparr>"

definition running_state :: state where
  "running_state = snd (InitPeripheralsAndHandlers all_open initial_state)"

definition turning_state :: state where
  "turning_state = running_state\<lparr>isMotorTurning := True, stepNumber := 2\<rparr>"

section \<open>Basic facts\<close>

lemmas handler_defs =
  StepperMotorEventHandler_def ButtonTimerEventHandler_def set_IN_lines_def
  GPIO_SetValue_def log_call_def new_calls_def Let_def

lemma small_step_cases:
  fixes x :: "32 word"
  assumes "0 \<le> sint x" and "sint x \<le> 3"
  shows "x = 0 \<or> x = 1 \<or> x = 2 \<or> x = 3"
proof -
  have again: "x = word_of_int (sint x)"
    by simp
  from assms have "sint x = 0 \<or> sint x = 1 \<or> sint x = 2 \<or> sint x = 3"
    by arith
  then consider "sint x = 0" | "sint x = 1" | "sint x = 2" | "sint x = 3"
    by blast
  then show ?thesis
  proof cases
    case 1
    with again show ?thesis by simp
  next
    case 2
    with again show ?thesis by simp
  next
    case 3
    with again have "x = 2" by simp
    then show ?thesis by simp
  next
    case 4
    with again have "x = 3" by simp
    then show ?thesis by simp
  qed
qed

lemma step_in_range_cases:
  "step_in_range s \<Longrightarrow>
     stepNumber s = 0 \<or> stepNumber s = 1 \<or> stepNumber s = 2 \<or> stepNumber s = 3"
  using small_step_cases [of "stepNumber s"] by (simp add: step_in_range_def)

section \<open>The step sequencer while turning\<close>

lemma stepper_turning_writes:
  assumes "isMotorTurning s" and "step_in_range s"
  shows "gpio_writes (new_calls s (StepperMotorEventHandler 0 s)) =
           excitation s (sint (stepNumber s))"
  using step_in_range_cases [OF assms(2)] assms(1)
  by (elim disjE) (simp_all add: handler_defs excitation_def)

lemma stepper_turning_step:
  assumes "isMotorTurning s" and "step_in_range s"
  shows "sint (stepNumber (StepperMotorEventHandler 0 s)) = (sint (stepNumber s) + 1) mod 4"
  using step_in_range_cases [OF assms(2)] assms(1)
  by (elim disjE) (simp_all add: handler_defs)

lemma excitation_one_active:
  "0 \<le> k \<Longrightarrow> k \<le> 3 \<Longrightarrow> active_count (excitation s k) = 1"
  by (simp add: active_count_def excitation_def)

lemma stepper_keeps_turning:
  "isMotorTurning (StepperMotorEventHandler c s) = isMotorTurning s"
  by (simp add: handler_defs)

lemma stepper_keeps_lines:
  "IN1 (StepperMotorEventHandler c s) = IN1 s \<and> IN2 (StepperMotorEventHandler c s) = IN2 s \<and>
   IN3 (StepperMotorEventHandler c s) = IN3 s \<and> IN4 (StepperMotorEventHandler c s) = IN4 s"
  by (simp add: handler_defs)

lemma excitation_cong:
  "IN1 s' = IN1 s \<Longrightarrow> IN2 s' = IN2 s \<Longrightarrow> IN3 s' = IN3 s \<Longrightarrow> IN4 s' = IN4 s \<Longrightarrow>
     excitation s' k = excitation s k"
  by (simp add: excitation_def)

lemma stepper_ticks_keep:
  "isMotorTurning (stepper_ticks n s) = isMotorTurning s \<and>
   IN1 (stepper_ticks n s) = IN1 s \<and> IN2 (stepper_ticks n s) = IN2 s \<and>
   IN3 (stepper_ticks n s) = IN3 s \<and> IN4 (stepper_ticks n s) = IN4 s"
  by (induction n) (simp_all add: stepper_keeps_turning stepper_keeps_lines)

lemma stepper_ticks_step:
  assumes "isMotorTurning s" and "step_in_range s"
  shows "step_in_range (stepper_ticks n s) \<and>
         sint (stepNumber (stepper_ticks n s)) = (sint (stepNumber s) + int n) mod 4"
proof (induction n)
  case 0
  from assms(2) show ?case by (simp add: step_in_range_def)
next
  case (Suc n)
  let ?t = "stepper_ticks n s"
  from Suc have range: "step_in_range ?t"
    and at: "sint (stepNumber ?t) = (sint (stepNumber s) + int n) mod 4"
    by simp_all
  have turning: "isMotorTurning ?t"
    using assms(1) by (simp add: stepper_ticks_keep)
  have "sint (stepNumber (stepper_ticks (Suc n) s)) = (sint (stepNumber ?t) + 1) mod 4"
    using stepper_turning_step [OF turning range] by simp
  also have "\<dots> = (sint (stepNumber s) + int (Suc n)) mod 4"
    unfolding at by (simp add: mod_simps algebra_simps)
  finally have now: "sint (stepNumber (stepper_ticks (Suc n) s)) =
      (sint (stepNumber s) + int (Suc n)) mod 4" .
  then have "step_in_range (stepper_ticks (Suc n) s)"
    unfolding step_in_range_def by simp
  with now show ?case by simp
qed

text \<open>
  C1 as stated fails: it speaks of every invocation with \<open>isMotorTurning\<close> set and
  \<open>stepNumber\<close> in 0..3, but the handler first consumes its timer event and returns
  when that fails. With the motor turning at step 2 and \<open>ConsumeTimerFdEvent\<close> returning
  -1, no line is written (so no line is active) and \<open>stepNumber\<close> stays 2 instead of
  becoming 3.
\<close>

theorem C1_stepper_turning_counterexample:
  "isMotorTurning turning_state \<and> step_in_range turning_state \<and>
   sint (stepNumber turning_state) = 2 \<and>
   gpio_writes (new_calls turning_state (StepperMotorEventHandler (- 1) turning_state)) = [] \<and>
   active_count
     (gpio_writes (new_calls turning_state (StepperMotorEventHandler (- 1) turning_state))) = 0 \<and>
   sint (stepNumber (StepperMotorEventHandler (- 1) turning_state)) = 2 \<and>
   sint (stepNumber (StepperMotorEventHandler (- 1) turning_state)) \<noteq>
     (sint (stepNumber turning_state) + 1) mod 4"
  by (simp add: handler_defs turning_state_def step_in_range_def active_count_def)

text \<open>
  C1, amended. With \<open>isMotorTurning\<close> set, the timer consumed and \<open>stepNumber\<close> = k in 0..3, one
  invocation of the stepper handler writes exactly the row k of the excitation table
  (line IN(k+1) low, the three others high, so one active line) and leaves
  \<open>stepNumber\<close> = (k + 1) mod 4. Over n consecutive such invocations the flag stays set,
  \<open>stepNumber\<close> is (k + n) mod 4, and the next invocation writes the row (k + n) mod 4,
  again with exactly one active line.
\<close>

theorem C1_stepper_turning:
  assumes "isMotorTurning s" and "step_in_range s"
  shows "gpio_writes (new_calls s (StepperMotorEventHandler 0 s)) =
           excitation s (sint (stepNumber s)) \<and>
         active_count (gpio_writes (new_calls s (StepperMotorEventHandler 0 s))) = 1 \<and>
         sint (stepNumber (StepperMotorEventHandler 0 s)) = (sint (stepNumber s) + 1) mod 4 \<and>
         isMotorTurning (stepper_ticks n s) \<and>
         sint (stepNumber (stepper_ticks n s)) = (sint (stepNumber s) + int n) mod 4 \<and>
         gpio_writes (new_calls (stepper_ticks n s) (stepper_ticks (Suc n) s)) =
           excitation s ((sint (stepNumber s) + int n) mod 4) \<and>
         active_count (gpio_writes (new_calls (stepper_ticks n s) (stepper_ticks (Suc n) s))) = 1"
proof -
  let ?t = "stepper_ticks n s"
  have w: "gpio_writes (new_calls s (StepperMotorEventHandler 0 s)) =
      excitation s (sint (stepNumber s))"
    by (rule stepper_turning_writes [OF assms])
  have one: "active_count (excitation s (sint (stepNumber s))) = 1"
    using assms(2) by (simp add: excitation_one_active step_in_range_def)
  have turning: "isMotorTurning ?t"
    using assms(1) by (simp add: stepper_ticks_keep)
  have range: "step_in_range ?t"
    and at: "sint (stepNumber ?t) = (sint (stepNumber s) + int n) mod 4"
    using stepper_ticks_step [OF assms, of n] by simp_all
  have "gpio_writes (new_calls ?t (stepper_ticks (Suc n) s)) =
      excitation ?t (sint (stepNumber ?t))"
    using stepper_turning_writes [OF turning range] by simp
  also have "\<dots> = excitation s ((sint (stepNumber s) + int n) mod 4)"
    unfolding at by (rule excitation_cong) (simp_all add: stepper_ticks_keep)
  finally have wn: "gpio_writes (new_calls ?t (stepper_ticks (Suc n) s)) =
      excitation s ((sint (stepNumber s) + int n) mod 4)" .
  have onen: "active_count (excitation s ((sint (stepNumber s) + int n) mod 4)) = 1"
    by (rule excitation_one_active) simp_all
  show ?thesis
    using w one turning at wn onen stepper_turning_step [OF assms] by simp
qed

theorem C1_stepper_turning_witness:
  "isMotorTurning turning_state \<and> step_in_range turning_state \<and>
   gpio_writes (new_calls turning_state (StepperMotorEventHandler 0 turning_state)) =
     [(10, GPIO_Value_High), (9, GPIO_Value_High), (8, GPIO_Value_Low), (7, GPIO_Value_High)] \<and>
   sint (stepNumber (StepperMotorEventHandler 0 turning_state)) = 3 \<and>
   sint (stepNumber (stepper_ticks 6 turning_state)) = 0 \<and>
   gpio_writes (new_calls (stepper_ticks 6 turning_state) (stepper_ticks (Suc 6) turning_state)) =
     [(10, GPIO_Value_Low), (9, GPIO_Value_High), (8, GPIO_Value_High), (7, GPIO_Value_High)]"
proof -
  have a: "isMotorTurning turning_state"
    by (simp add: turning_state_def)
  have b: "step_in_range turning_state"
    by (simp add: turning_state_def step_in_range_def)
  have c: "IN1 turning_state = 10 \<and> IN2 turning_state = 9 \<and> IN3 turning_state = 8 \<and>
      IN4 turning_state = 7 \<and> stepNumber turning_state = 2"
    by (simp add: turning_state_def running_state_def InitPeripheralsAndHandlers_def
        all_open_def initial_state_def log_call_def Let_def)
  show ?thesis
    using a b C1_stepper_turning [OF a b, of 6] by (simp add: excitation_def c)
qed

section \<open>The step sequencer while idle\<close>

text \<open>
  C2. With \<open>isMotorTurning\<close> clear and the timer consumed, one invocation of the stepper
  handler writes high (inactive) to IN1, IN2, IN3 and IN4, nothing else, and leaves
  \<open>stepNumber\<close> as it was.
\<close>

theorem C2_stepper_idle:
  assumes "\<not> isMotorTurning s"
  shows "gpio_writes (new_calls s (StepperMotorEventHandler 0 s)) =
           [(IN1 s, GPIO_Value_High), (IN2 s, GPIO_Value_High),
            (IN3 s, GPIO_Value_High), (IN4 s, GPIO_Value_High)] \<and>
         stepNumber (StepperMotorEventHandler 0 s) = stepNumber s"
  using assms by (simp add: handler_defs)

theorem C2_stepper_idle_witness:
  "\<not> isMotorTurning (initial_state\<lparr>stepNumber := 2\<rparr>) \<and>
   gpio_writes (new_calls (initial_state\<lparr>stepNumber := 2\<rparr>)
       (StepperMotorEventHandler 0 (initial_state\<lparr>stepNumber := 2\<rparr>))) =
     [(- 1, GPIO_Value_High), (- 1, GPIO_Value_High), (- 1, GPIO_Value_High), (- 1, GPIO_Value_High)] \<and>
   stepNumber (StepperMotorEventHandler 0 (initial_state\<lparr>stepNumber := 2\<rparr>)) = 2"
proof -
  have a: "\<not> isMotorTurning (initial_state\<lparr>stepNumber := 2\<rparr>)"
    by (simp add: initial_state_def)
  show ?thesis
    using a C2_stepper_idle [OF a] by (simp add: initial_state_def)
qed

section \<open>The button monitor\<close>

text \<open>
  C4. When the timer is consumed and the button read succeeds: on a released button
  (high) the handler leaves \<open>isMotorTurning\<close> false and \<open>stepNumber\<close> 0, whatever it was,
  and writes high (off) to the green LED, its only write; on a pressed button (low) it
  leaves \<open>isMotorTurning\<close> true, writes low (on) to the green LED, its only write, and
  keeps \<open>stepNumber\<close>.
\<close>

theorem C4_button_levels:
  "isMotorTurning (ButtonTimerEventHandler 0 0 GPIO_Value_High s) = False \<and>
   stepNumber (ButtonTimerEventHandler 0 0 GPIO_Value_High s) = 0 \<and>
   gpio_writes (new_calls s (ButtonTimerEventHandler 0 0 GPIO_Value_High s)) =
     [(greenLEDFd s, GPIO_Value_High)] \<and>
   isMotorTurning (ButtonTimerEventHandler 0 0 GPIO_Value_Low s) = True \<and>
   gpio_writes (new_calls s (ButtonTimerEventHandler 0 0 GPIO_Value_Low s)) =
     [(greenLEDFd s, GPIO_Value_Low)] \<and>
   stepNumber (ButtonTimerEventHandler 0 0 GPIO_Value_Low s) = stepNumber s"
  by (simp add: handler_defs)

text \<open>
  C7. Two successive invocations of the button handler on the same successfully read
  level: the second leaves \<open>isMotorTurning\<close> and \<open>stepNumber\<close> as the first left them
  (indeed every variable, the log apart), and both issue the same write to the green
  LED.
\<close>

theorem C7_button_idempotent:
  "isMotorTurning (ButtonTimerEventHandler 0 0 v (ButtonTimerEventHandler 0 0 v s)) =
     isMotorTurning (ButtonTimerEventHandler 0 0 v s) \<and>
   stepNumber (ButtonTimerEventHandler 0 0 v (ButtonTimerEventHandler 0 0 v s)) =
     stepNumber (ButtonTimerEventHandler 0 0 v s) \<and>
   (ButtonTimerEventHandler 0 0 v (ButtonTimerEventHandler 0 0 v s))\<lparr>calls := []\<rparr> =
     (ButtonTimerEventHandler 0 0 v s)\<lparr>calls := []\<rparr> \<and>
   gpio_writes (new_calls (ButtonTimerEventHandler 0 0 v s)
       (ButtonTimerEventHandler 0 0 v (ButtonTimerEventHandler 0 0 v s))) =
     gpio_writes (new_calls s (ButtonTimerEventHandler 0 0 v s))"
  by (cases v) (simp_all add: handler_defs)

section \<open>Failures inside the handlers\<close>

text \<open>
  C8. If \<open>ConsumeTimerFdEvent\<close> fails in either handler, or \<open>GPIO_GetValue\<close> fails in
  the button handler, the handler sets \<open>terminationRequired\<close> and returns: apart from
  that flag and the log of the calls already made, the state is the one it was entered
  with (so \<open>isMotorTurning\<close> and \<open>stepNumber\<close> are unchanged) and no line is written.
\<close>

theorem C8_failure_sets_latch_only:
  assumes "c \<noteq> 0" and "r \<noteq> 0"
  shows "ButtonTimerEventHandler c r' v s =
           s\<lparr>terminationRequired := True,
             calls := calls s @ [ConsumeTimerFdEvent_call (buttonPollTimerFd s)]\<rparr> \<and>
         gpio_writes (new_calls s (ButtonTimerEventHandler c r' v s)) = [] \<and>
         ButtonTimerEventHandler 0 r v s =
           s\<lparr>terminationRequired := True,
             calls := calls s @ [ConsumeTimerFdEvent_call (buttonPollTimerFd s),
                                GPIO_GetValue_call (button_A_GpioFd s)]\<rparr> \<and>
         gpio_writes (new_calls s (ButtonTimerEventHandler 0 r v s)) = [] \<and>
         StepperMotorEventHandler c s =
           s\<lparr>terminationRequired := True,
             calls := calls s @ [ConsumeTimerFdEvent_call (stepperMotorTimerFd s)]\<rparr> \<and>
         gpio_writes (new_calls s (StepperMotorEventHandler c s)) = []"
  using assms by (simp add: handler_defs)

theorem C8_failure_sets_latch_only_witness:
  "(- 1 :: int) \<noteq> 0 \<and>
   terminationRequired (ButtonTimerEventHandler (- 1) 0 GPIO_Value_Low turning_state) \<and>
   isMotorTurning (ButtonTimerEventHandler (- 1) 0 GPIO_Value_Low turning_state) \<and>
   stepNumber (ButtonTimerEventHandler (- 1) 0 GPIO_Value_Low turning_state) = 2 \<and>
   terminationRequired (ButtonTimerEventHandler 0 (- 1) GPIO_Value_High turning_state) \<and>
   isMotorTurning (ButtonTimerEventHandler 0 (- 1) GPIO_Value_High turning_state) \<and>
   stepNumber (ButtonTimerEventHandler 0 (- 1) GPIO_Value_High turning_state) = 2 \<and>
   terminationRequired (StepperMotorEventHandler (- 1) turning_state) \<and>
   stepNumber (StepperMotorEventHandler (- 1) turning_state) = 2 \<and>
   gpio_writes (new_calls turning_state (StepperMotorEventHandler (- 1) turning_state)) = []"
proof -
  have a: "(- 1 :: int) \<noteq> 0"
    by simp
  show ?thesis
    using C8_failure_sets_latch_only [OF a a, of 0 GPIO_Value_Low turning_state]
      C8_failure_sets_latch_only [OF a a, of 0 GPIO_Value_High turning_state]
    by (simp add: turning_state_def)
qed

section \<open>What each handler leaves alone\<close>

text \<open>
  C10. The stepper handler never changes \<open>isMotorTurning\<close>, and every line write it
  issues goes to one of the descriptors IN1..IN4; so it never writes the green LED,
  whose descriptor is none of these. The button handler issues line writes to the green
  LED descriptor only; so it never writes IN1..IN4.
\<close>

theorem C10_handler_frames:
  "isMotorTurning (StepperMotorEventHandler c s) = isMotorTurning s \<and>
   set (map fst (gpio_writes (new_calls s (StepperMotorEventHandler c s))))
     \<subseteq> {IN1 s, IN2 s, IN3 s, IN4 s} \<and>
   (greenLEDFd s \<notin> {IN1 s, IN2 s, IN3 s, IN4 s} \<longrightarrow>
      greenLEDFd s \<notin> set (map fst (gpio_writes (new_calls s (StepperMotorEventHandler c s))))) \<and>
   set (map fst (gpio_writes (new_calls s (ButtonTimerEventHandler c r v s))))
     \<subseteq> {greenLEDFd s} \<and>
   (greenLEDFd s \<notin> {IN1 s, IN2 s, IN3 s, IN4 s} \<longrightarrow>
      set (map fst (gpio_writes (new_calls s (ButtonTimerEventHandler c r v s))))
        \<inter> {IN1 s, IN2 s, IN3 s, IN4 s} = {})"
  by (simp add: handler_defs)

theorem C10_handler_frames_witness:
  "greenLEDFd turning_state \<notin>
     {IN1 turning_state, IN2 turning_state, IN3 turning_state, IN4 turning_state} \<and>
   isMotorTurning (StepperMotorEventHandler 0 turning_state) \<and>
   greenLEDFd turning_state \<notin>
     set (map fst (gpio_writes (new_calls turning_state (StepperMotorEventHandler 0 turning_state)))) \<and>
   set (map fst (gpio_writes (new_calls turning_state
       (ButtonTimerEventHandler 0 0 GPIO_Value_High turning_state))))
     \<inter> {IN1 turning_state, IN2 turning_state, IN3 turning_state, IN4 turning_state} = {}"
proof -
  have a: "greenLEDFd turning_state \<notin>
      {IN1 turning_state, IN2 turning_state, IN3 turning_state, IN4 turning_state}"
    by (simp add: turning_state_def running_state_def InitPeripheralsAndHandlers_def
        all_open_def initial_state_def log_call_def Let_def)
  have b: "isMotorTurning turning_state"
    by (simp add: turning_state_def)
  show ?thesis
    using a b C10_handler_frames [of 0 turning_state 0 GPIO_Value_High] by simp
qed

section \<open>The range of the step number\<close>

lemma button_keeps_range:
  "step_in_range s \<Longrightarrow> step_in_range (ButtonTimerEventHandler c r v s)"
  by (simp add: handler_defs step_in_range_def)

lemma stepper_keeps_range:
  assumes "step_in_range s"
  shows "step_in_range (StepperMotorEventHandler c s)"
  using step_in_range_cases [OF assms]
  by (elim disjE) (simp_all add: handler_defs step_in_range_def)

lemma eventHandler_keeps_range:
  "step_in_range s \<Longrightarrow> step_in_range (eventHandler d s)"
  by (cases d) (simp_all add: button_keeps_range stepper_keeps_range)

lemma eventHandler_keeps_idle_at_zero:
  "idle_at_zero s \<Longrightarrow> idle_at_zero (eventHandler d s)"
  by (cases d) (auto simp add: handler_defs idle_at_zero_def)

lemma fold_eventHandler_invariant:
  "step_in_range s \<Longrightarrow> idle_at_zero s \<Longrightarrow>
     step_in_range (fold eventHandler ds s) \<and> idle_at_zero (fold eventHandler ds s)"
  by (induction ds arbitrary: s)
    (simp_all add: eventHandler_keeps_range eventHandler_keeps_idle_at_zero)

lemma idle_step_not_advanced:
  "\<not> isMotorTurning s \<Longrightarrow>
     stepNumber (eventHandler d s) = stepNumber s \<or> stepNumber (eventHandler d s) = 0"
  by (cases d) (simp_all add: handler_defs)

text \<open>
  C3. \<open>stepNumber\<close> is 0 at the start, and each handler invocation, whatever the
  environment answers, takes a state with \<open>stepNumber\<close> in 0..3 to one with \<open>stepNumber\<close>
  in 0..3; hence it is in 0..3 after any sequence of invocations from a state with
  \<open>stepNumber\<close> = 0. An invocation entered with \<open>isMotorTurning\<close> false never advances
  \<open>stepNumber\<close>: it leaves it as it was or resets it to 0, and in every state reached
  from the start (motor idle, step 0) it leaves it as it was.
\<close>

theorem C3_step_range_invariant:
  "step_in_range initial_state \<and>
   (step_in_range s \<longrightarrow> step_in_range (eventHandler d s)) \<and>
   (stepNumber s0 = 0 \<longrightarrow> step_in_range (fold eventHandler ds s0)) \<and>
   (\<not> isMotorTurning s \<longrightarrow>
      stepNumber (eventHandler d s) = stepNumber s \<or> stepNumber (eventHandler d s) = 0) \<and>
   (stepNumber s0 = 0 \<and> \<not> isMotorTurning s0 \<and> \<not> isMotorTurning (fold eventHandler ds s0) \<longrightarrow>
      stepNumber (eventHandler d (fold eventHandler ds s0)) = stepNumber (fold eventHandler ds s0))"
proof -
  have start: "step_in_range initial_state"
    by (simp add: initial_state_def step_in_range_def)
  have range: "step_in_range (fold eventHandler ds s0)" if "stepNumber s0 = 0"
  proof -
    from that have "step_in_range s0" and "idle_at_zero s0"
      by (simp_all add: step_in_range_def idle_at_zero_def)
    then show ?thesis
      by (simp add: fold_eventHandler_invariant)
  qed
  have still: "stepNumber (eventHandler d (fold eventHandler ds s0)) =
      stepNumber (fold eventHandler ds s0)"
    if "stepNumber s0 = 0" and "\<not> isMotorTurning (fold eventHandler ds s0)"
  proof -
    let ?t = "fold eventHandler ds s0"
    from that(1) have "step_in_range s0" and "idle_at_zero s0"
      by (simp_all add: step_in_range_def idle_at_zero_def)
    then have "idle_at_zero ?t"
      by (simp add: fold_eventHandler_invariant)
    with that(2) have "stepNumber ?t = 0"
      by (simp add: idle_at_zero_def)
    with idle_step_not_advanced [OF that(2), of d] show ?thesis
      by auto
  qed
  show ?thesis
    using start range still eventHandler_keeps_range idle_step_not_advanced by blast
qed

theorem C3_step_range_invariant_witness:
  "step_in_range turning_state \<and>
   step_in_range (eventHandler (StepperTick 0) turning_state) \<and>
   stepNumber initial_state = 0 \<and> \<not> isMotorTurning initial_state \<and>
   step_in_range (fold eventHandler
     [ButtonTick 0 0 GPIO_Value_Low, StepperTick 0, StepperTick 0, ButtonTick 0 0 GPIO_Value_High]
     initial_state) \<and>
   \<not> isMotorTurning (fold eventHandler
     [ButtonTick 0 0 GPIO_Value_Low, StepperTick 0, StepperTick 0, ButtonTick 0 0 GPIO_Value_High]
     initial_state) \<and>
   stepNumber (eventHandler (StepperTick 0) (fold eventHandler
     [ButtonTick 0 0 GPIO_Value_Low, StepperTick 0, StepperTick 0, ButtonTick 0 0 GPIO_Value_High]
     initial_state)) =
   stepNumber (fold eventHandler
     [ButtonTick 0 0 GPIO_Value_Low, StepperTick 0, StepperTick 0, ButtonTick 0 0 GPIO_Value_High]
     initial_state) \<and>
   (stepNumber (eventHandler (StepperTick 0) initial_state) = stepNumber initial_state \<or>
    stepNumber (eventHandler (StepperTick 0) initial_state) = 0)"
proof -
  let ?ds = "[ButtonTick 0 0 GPIO_Value_Low, StepperTick 0, StepperTick 0,
    ButtonTick 0 0 GPIO_Value_High]"
  have a: "step_in_range turning_state"
    by (simp add: turning_state_def step_in_range_def)
  have b: "stepNumber initial_state = 0 \<and> \<not> isMotorTurning initial_state"
    by (simp add: initial_state_def)
  have c: "\<not> isMotorTurning (fold eventHandler ?ds initial_state)"
    by (simp add: handler_defs)
  show ?thesis
    using a b c
      C3_step_range_invariant [of turning_state "StepperTick 0" initial_state ?ds]
      C3_step_range_invariant [of initial_state "StepperTick 0" initial_state ?ds]
    by simp
qed

section \<open>The termination latch and the run loop\<close>

lemmas loop_defs =
  main_loop_body_def WaitForEventAndCallHandler_def TerminationHandler_def

lemma dispatches_append: "dispatches (xs @ ys) = dispatches xs + dispatches ys"
  by (induction xs rule: dispatches.induct) simp_all

lemma wait_calls_append: "wait_calls (xs @ ys) = wait_calls xs + wait_calls ys"
  by (induction xs rule: wait_calls.induct) simp_all

lemma close_calls_append: "close_calls (xs @ ys) = close_calls xs @ close_calls ys"
  by (induction xs rule: close_calls.induct) simp_all

lemma acquired_fds_append: "acquired_fds (xs @ ys) = acquired_fds xs @ acquired_fds ys"
  by (induction xs rule: acquired_fds.induct) simp_all

lemma eventHandler_keeps_latch:
  "terminationRequired s \<Longrightarrow> terminationRequired (eventHandler d s)"
  by (cases d) (simp_all add: handler_defs)

lemma wait_keeps_latch:
  "terminationRequired s \<Longrightarrow> terminationRequired (snd (WaitForEventAndCallHandler w s))"
  by (cases w) (simp_all add: WaitForEventAndCallHandler_def log_call_def eventHandler_keeps_latch)


lemma body_after_signal:
  assumes "fst it"
  shows "terminationRequired (main_loop_body it s)"
proof -
  have "terminationRequired (TerminationHandler s)"
    by (simp add: TerminationHandler_def)
  then have "terminationRequired (snd (WaitForEventAndCallHandler (snd it) (TerminationHandler s)))"
    by (rule wait_keeps_latch)
  with assms show ?thesis
    unfolding main_loop_body_def Let_def split_def by simp
qed



lemma main_loop_latched:
  "terminationRequired s \<Longrightarrow> main_loop its s = Some s"
  by (cases its) simp_all


lemma eventHandler_calls:
  "calls (eventHandler d s) = calls s @ new_calls s (eventHandler d s) \<and>
   dispatches (new_calls s (eventHandler d s)) = 0 \<and>
   wait_calls (new_calls s (eventHandler d s)) = 0"
  by (cases d) (simp_all add: handler_defs)

lemma eventHandler_calls_from:
  "calls s = xs @ ys \<Longrightarrow> length xs = n \<Longrightarrow>
     drop n (calls (eventHandler d s)) = ys @ new_calls s (eventHandler d s)"
  using eventHandler_calls [of d s] by simp

lemma body_new_calls:
  "new_calls s (main_loop_body it s) =
     WaitForEventAndCallHandler_call (epollFd s) #
       (case snd it of
          wait_ready d \<Rightarrow>
            eventHandler_call (eventData_of d) #
              new_calls
                (log_call (eventHandler_call (eventData_of d))
                  (log_call (WaitForEventAndCallHandler_call (epollFd s))
                    (if fst it then TerminationHandler s else s)))
                (eventHandler d (log_call (eventHandler_call (eventData_of d))
                  (log_call (WaitForEventAndCallHandler_call (epollFd s))
                    (if fst it then TerminationHandler s else s))))
        | _ \<Rightarrow> [])"
proof (cases "snd it")
  case wait_failed
  then show ?thesis
    by (simp add: loop_defs log_call_def new_calls_def)
next
  case wait_no_event
  then show ?thesis
    by (simp add: loop_defs log_call_def new_calls_def)
next
  case (wait_ready d)
  let ?s2 = "log_call (eventHandler_call (eventData_of d))
      (log_call (WaitForEventAndCallHandler_call (epollFd s))
        (if fst it then TerminationHandler s else s))"
  have body: "main_loop_body it s = eventHandler d ?s2"
    using wait_ready by (simp add: loop_defs log_call_def)
  have "calls ?s2 = calls s @ [WaitForEventAndCallHandler_call (epollFd s),
      eventHandler_call (eventData_of d)]"
    by (simp add: log_call_def TerminationHandler_def)
  then have "drop (length (calls s)) (calls (eventHandler d ?s2)) =
      [WaitForEventAndCallHandler_call (epollFd s), eventHandler_call (eventData_of d)] @
      new_calls ?s2 (eventHandler d ?s2)"
    by (rule eventHandler_calls_from) simp
  with wait_ready body show ?thesis
    by (simp add: new_calls_def)
qed

lemma body_one_wait:
  "wait_calls (new_calls s (main_loop_body it s)) = 1"
  unfolding body_new_calls by (cases "snd it") (simp_all add: eventHandler_calls)




section \<open>Start-up and shutdown\<close>

lemmas close_defs =
  ClosePeripheralsAndHandlers_def CloseFdAndPrintError_def log_call_def Let_def

lemma init_fails_iff:
  "fst (InitPeripheralsAndHandlers env s) \<noteq> 0 \<longleftrightarrow>
     CreateEpollFd_result env < 0 \<or> open_button_A_result env < 0 \<or>
     create_buttonPollTimer_result env < 0 \<or> open_greenLED_result env < 0 \<or>
     open_IN4_result env < 0 \<or> open_IN3_result env < 0 \<or> open_IN2_result env < 0 \<or>
     open_IN1_result env < 0 \<or> create_stepperMotorTimer_result env < 0"
  by (simp add: InitPeripheralsAndHandlers_def log_call_def Let_def)

lemma init_log:
  "wait_calls (calls (snd (InitPeripheralsAndHandlers env initial_state))) = 0 \<and>
   close_calls (calls (snd (InitPeripheralsAndHandlers env initial_state))) = []"
  by (simp add: InitPeripheralsAndHandlers_def log_call_def Let_def initial_state_def)

lemma init_acquired:
  "acquired_fds (calls (snd (InitPeripheralsAndHandlers env initial_state))) =
     filter (\<lambda>fd. 0 \<le> fd)
       (handles_in_open_order (snd (InitPeripheralsAndHandlers env initial_state)))"
  by (simp add: InitPeripheralsAndHandlers_def log_call_def Let_def initial_state_def
      handles_in_open_order_def)

lemma eventHandler_quiet:
  "acquired_fds (new_calls s (eventHandler d s)) = [] \<and>
   close_calls (new_calls s (eventHandler d s)) = [] \<and>
   handles_in_open_order (eventHandler d s) = handles_in_open_order s"
  by (cases d) (simp_all add: handler_defs handles_in_open_order_def)

lemma body_handles:
  "handles_in_open_order (main_loop_body it s) = handles_in_open_order s"
proof (cases "snd it")
  case wait_failed
  then show ?thesis
    by (simp add: loop_defs log_call_def handles_in_open_order_def)
next
  case wait_no_event
  then show ?thesis
    by (simp add: loop_defs log_call_def handles_in_open_order_def)
next
  case (wait_ready d)
  let ?s2 = "log_call (eventHandler_call (eventData_of d))
      (log_call (WaitForEventAndCallHandler_call (epollFd s))
        (if fst it then TerminationHandler s else s))"
  have "main_loop_body it s = eventHandler d ?s2"
    using wait_ready by (simp add: loop_defs log_call_def)
  moreover have "handles_in_open_order ?s2 = handles_in_open_order s"
    by (simp add: log_call_def TerminationHandler_def handles_in_open_order_def)
  ultimately show ?thesis
    by (simp add: eventHandler_quiet)
qed

lemma calls_extend:
  "calls s' = calls s @ ys \<Longrightarrow> calls s' = calls s @ new_calls s s'"
  by (simp add: new_calls_def)

lemma body_calls:
  "calls (main_loop_body it s) = calls s @ new_calls s (main_loop_body it s)"
proof (cases "snd it")
  case wait_failed
  then show ?thesis
    by (simp add: loop_defs log_call_def new_calls_def)
next
  case wait_no_event
  then show ?thesis
    by (simp add: loop_defs log_call_def new_calls_def)
next
  case (wait_ready d)
  let ?s2 = "log_call (eventHandler_call (eventData_of d))
      (log_call (WaitForEventAndCallHandler_call (epollFd s))
        (if fst it then TerminationHandler s else s))"
  have body: "main_loop_body it s = eventHandler d ?s2"
    using wait_ready by (simp add: loop_defs log_call_def)
  have "calls ?s2 = calls s @ [WaitForEventAndCallHandler_call (epollFd s),
      eventHandler_call (eventData_of d)]"
    by (simp add: log_call_def TerminationHandler_def)
  with eventHandler_calls [of d ?s2]
  have "calls (eventHandler d ?s2) = calls s @
      ([WaitForEventAndCallHandler_call (epollFd s), eventHandler_call (eventData_of d)] @
       new_calls ?s2 (eventHandler d ?s2))"
    by simp
  then have "calls (eventHandler d ?s2) = calls s @ new_calls s (eventHandler d ?s2)"
    by (rule calls_extend)
  then show ?thesis
    unfolding body .
qed

lemma body_wait_count:
  "wait_calls (calls (main_loop_body it s)) = wait_calls (calls s) + 1"
proof -
  have "wait_calls (calls (main_loop_body it s)) =
      wait_calls (calls s @ new_calls s (main_loop_body it s))"
    by (simp only: body_calls [symmetric])
  then show ?thesis
    by (simp only: wait_calls_append body_one_wait)
qed

lemma body_quiet:
  "acquired_fds (calls (main_loop_body it s)) = acquired_fds (calls s) \<and>
   close_calls (calls (main_loop_body it s)) = close_calls (calls s)"
proof -
  have "acquired_fds (new_calls s (main_loop_body it s)) = [] \<and>
      close_calls (new_calls s (main_loop_body it s)) = []"
    unfolding body_new_calls by (cases "snd it") (simp_all add: eventHandler_quiet)
  then show ?thesis
    using body_calls [of it s] by (simp add: acquired_fds_append close_calls_append)
qed

lemma main_loop_quiet:
  "main_loop its s = Some s' \<Longrightarrow>
     handles_in_open_order s' = handles_in_open_order s \<and>
     acquired_fds (calls s') = acquired_fds (calls s) \<and>
     close_calls (calls s') = close_calls (calls s) \<and>
     wait_calls (calls s) \<le> wait_calls (calls s')"
proof (induction its arbitrary: s)
  case Nil
  then show ?case
    by (simp split: if_splits)
next
  case (Cons it its)
  show ?case
  proof (cases "terminationRequired s")
    case True
    with Cons.prems show ?thesis by simp
  next
    case False
    with Cons.prems have "main_loop its (main_loop_body it s) = Some s'"
      by simp
    from Cons.IH [OF this] show ?thesis
      by (simp add: body_handles body_quiet body_wait_count)
  qed
qed

lemma main_loop_total:
  "terminationRequired s \<or> (\<exists>it\<in>set its. fst it) \<Longrightarrow> \<exists>s'. main_loop its s = Some s'"
proof (induction its arbitrary: s)
  case Nil
  then show ?case by simp
next
  case (Cons it its)
  show ?case
  proof (cases "terminationRequired s")
    case True
    then show ?thesis by simp
  next
    case False
    with Cons.prems have "fst it \<or> (\<exists>it\<in>set its. fst it)"
      by simp
    then have "terminationRequired (main_loop_body it s) \<or> (\<exists>it\<in>set its. fst it)"
      by (auto simp add: body_after_signal)
    from Cons.IH [OF this] False show ?thesis
      by simp
  qed
qed

lemma close_log:
  "close_calls (new_calls s (ClosePeripheralsAndHandlers failing s)) =
     [(epollFd s, ''Epoll''), (buttonPollTimerFd s, ''Button A Timer''),
      (greenLEDFd s, ''Green LED''), (button_A_GpioFd s, ''Button A GPIO''),
      (stepperMotorTimerFd s, ''Stepper motor timer event''),
      (IN1 s, ''IN1 GPIO''), (IN2 s, ''IN2 GPIO''), (IN3 s, ''IN3 GPIO''), (IN4 s, ''IN4 GPIO'')] \<and>
   length (new_calls s (ClosePeripheralsAndHandlers failing s)) = 9 \<and>
   (ClosePeripheralsAndHandlers failing s)\<lparr>calls := calls s\<rparr> = s"
  by (simp add: close_defs new_calls_def)

lemma close_calls_after:
  "calls (ClosePeripheralsAndHandlers failing s) =
     calls s @ new_calls s (ClosePeripheralsAndHandlers failing s) \<and>
   acquired_fds (new_calls s (ClosePeripheralsAndHandlers failing s)) = [] \<and>
   wait_calls (new_calls s (ClosePeripheralsAndHandlers failing s)) = 0 \<and>
   handles_in_open_order (ClosePeripheralsAndHandlers failing s) = handles_in_open_order s \<and>
   handles_in_close_order (ClosePeripheralsAndHandlers failing s) = handles_in_close_order s"
  by (simp add: close_defs new_calls_def handles_in_open_order_def handles_in_close_order_def)

lemma close_order_permutes:
  "mset (handles_in_close_order s) = mset (handles_in_open_order s)"
  by (simp add: handles_in_open_order_def handles_in_close_order_def)

lemma close_order_from_open_order:
  "handles_in_open_order s' = handles_in_open_order s \<Longrightarrow>
     handles_in_close_order s' = handles_in_close_order s"
  by (simp add: handles_in_open_order_def handles_in_close_order_def)

text \<open>What \<open>main\<close> returns, spelled out.\<close>

lemma main_result:
  assumes "main env its failing = Some (r, sf)"
  obtains s1 s3 where
    "s1 = snd (InitPeripheralsAndHandlers env initial_state)"
    "main_loop its
       (if fst (InitPeripheralsAndHandlers env initial_state) \<noteq> 0
        then s1\<lparr>terminationRequired := True\<rparr> else s1) = Some s3"
    "sf = ClosePeripheralsAndHandlers failing s3"
    "r = 0"
  using assms by (auto simp add: main_def Let_def split_def split: option.splits)

lemma main_releases:
  assumes "main env its failing = Some (r, sf)"
  shows "map fst (close_calls (calls sf)) = handles_in_close_order sf \<and>
         mset (filter (\<lambda>fd. 0 \<le> fd) (map fst (close_calls (calls sf)))) =
           mset (acquired_fds (calls sf))"
proof -
  from assms obtain s1 s3 where
    s1: "s1 = snd (InitPeripheralsAndHandlers env initial_state)" and
    loop: "main_loop its
       (if fst (InitPeripheralsAndHandlers env initial_state) \<noteq> 0
        then s1\<lparr>terminationRequired := True\<rparr> else s1) = Some s3" and
    sf: "sf = ClosePeripheralsAndHandlers failing s3"
    by (rule main_result)
  let ?s2 = "if fst (InitPeripheralsAndHandlers env initial_state) \<noteq> 0
    then s1\<lparr>terminationRequired := True\<rparr> else s1"
  have s2: "handles_in_open_order ?s2 = handles_in_open_order s1 \<and>
      acquired_fds (calls ?s2) = acquired_fds (calls s1) \<and>
      close_calls (calls ?s2) = []"
    using init_log [of env] by (simp add: s1 handles_in_open_order_def)
  from main_loop_quiet [OF loop] s2
  have s3: "handles_in_open_order s3 = handles_in_open_order s1 \<and>
      acquired_fds (calls s3) = acquired_fds (calls s1) \<and>
      close_calls (calls s3) = []"
    by simp
  have closes: "close_calls (calls sf) =
      close_calls (new_calls s3 (ClosePeripheralsAndHandlers failing s3))"
    using close_calls_after [of failing s3] s3 sf
    by (metis append_Nil close_calls_append)
  have order: "map fst (close_calls (calls sf)) = handles_in_close_order s3"
    unfolding closes by (simp add: close_log handles_in_close_order_def)
  have same: "handles_in_close_order sf = handles_in_close_order s3"
    by (simp add: sf close_calls_after)
  have acquired: "acquired_fds (calls sf) = acquired_fds (calls s1)"
    using close_calls_after [of failing s3] s3 sf
    by (metis append_Nil2 acquired_fds_append)
  have "mset (filter (\<lambda>fd. 0 \<le> fd) (handles_in_close_order s3)) =
      filter_mset (\<lambda>fd. 0 \<le> fd) (mset (handles_in_open_order s3))"
    by (simp only: mset_filter close_order_permutes)
  also have "\<dots> = mset (filter (\<lambda>fd. 0 \<le> fd) (handles_in_open_order s1))"
    using s3 by (simp only: mset_filter)
  also have "\<dots> = mset (acquired_fds (calls s1))"
    by (simp only: s1 init_acquired)
  finally show ?thesis
    using order same acquired by simp
qed

text \<open>
  C5 as stated fails: \<open>main\<close> ends in \<open>return 0\<close> on every path. With the first open
  call (\<open>CreateEpollFd\<close>) failing, start-up reports failure and the exit status is 0.
\<close>

theorem C5_exit_status_counterexample:
  "CreateEpollFd_result epoll_fails < 0 \<and>
   fst (InitPeripheralsAndHandlers epoll_fails initial_state) \<noteq> 0 \<and>
   map_option fst (main epoll_fails [] []) = Some 0"
  by (simp add: main_def epoll_fails_def all_open_def InitPeripheralsAndHandlers_def
      log_call_def initial_state_def Let_def)

text \<open>
  C5, amended. Whenever \<open>main\<close> returns, the exit status is 0: after a termination
  request (a pass in which SIGTERM is delivered makes \<open>main\<close> return) and also after a
  failed start-up. Start-up fails exactly when one of its nine open calls returns a
  negative descriptor; \<open>main\<close> then sets the latch, never calls the dispatcher, makes
  its nine release calls and returns 0, whatever the environment offers to the loop.
\<close>

theorem C5_exit_status_zero:
  "(main env its failing = Some (r, sf) \<longrightarrow> r = 0) \<and>
   ((\<exists>it\<in>set its. fst it) \<longrightarrow> (\<exists>s'. main env its failing = Some (0, s'))) \<and>
   (fst (InitPeripheralsAndHandlers env initial_state) \<noteq> 0 \<longleftrightarrow>
      CreateEpollFd_result env < 0 \<or> open_button_A_result env < 0 \<or>
      create_buttonPollTimer_result env < 0 \<or> open_greenLED_result env < 0 \<or>
      open_IN4_result env < 0 \<or> open_IN3_result env < 0 \<or> open_IN2_result env < 0 \<or>
      open_IN1_result env < 0 \<or> create_stepperMotorTimer_result env < 0) \<and>
   (fst (InitPeripheralsAndHandlers env initial_state) \<noteq> 0 \<longrightarrow>
      main env its failing =
        Some (0, ClosePeripheralsAndHandlers failing
          ((snd (InitPeripheralsAndHandlers env initial_state))\<lparr>terminationRequired := True\<rparr>)) \<and>
      wait_calls (calls (ClosePeripheralsAndHandlers failing
          ((snd (InitPeripheralsAndHandlers env initial_state))\<lparr>terminationRequired := True\<rparr>))) = 0 \<and>
      length (close_calls (calls (ClosePeripheralsAndHandlers failing
          ((snd (InitPeripheralsAndHandlers env initial_state))\<lparr>terminationRequired := True\<rparr>)))) = 9)"
proof -
  let ?init = "InitPeripheralsAndHandlers env initial_state"
  let ?s2 = "(snd ?init)\<lparr>terminationRequired := True\<rparr>"
  have status: "main env its failing = Some (r, sf) \<longrightarrow> r = 0"
    by (auto elim: main_result)
  have requested: "(\<exists>it\<in>set its. fst it) \<longrightarrow> (\<exists>s'. main env its failing = Some (0, s'))"
  proof
    assume "\<exists>it\<in>set its. fst it"
    then have "\<exists>s'. main_loop its
        (if fst ?init \<noteq> 0 then (snd ?init)\<lparr>terminationRequired := True\<rparr> else snd ?init) = Some s'"
      by (simp add: main_loop_total)
    then show "\<exists>s'. main env its failing = Some (0, s')"
      by (auto simp add: main_def Let_def split_def)
  qed
  have failed: "fst ?init \<noteq> 0 \<longrightarrow>
      main env its failing = Some (0, ClosePeripheralsAndHandlers failing ?s2) \<and>
      wait_calls (calls (ClosePeripheralsAndHandlers failing ?s2)) = 0 \<and>
      length (close_calls (calls (ClosePeripheralsAndHandlers failing ?s2))) = 9"
  proof
    assume bad: "fst ?init \<noteq> 0"
    have "main_loop its ?s2 = Some ?s2"
      by (simp add: main_loop_latched)
    with bad have returns: "main env its failing = Some (0, ClosePeripheralsAndHandlers failing ?s2)"
      by (simp add: main_def Let_def split_def)
    have before: "wait_calls (calls ?s2) = 0 \<and> close_calls (calls ?s2) = []"
      using init_log [of env] by simp
    have after: "calls (ClosePeripheralsAndHandlers failing ?s2) =
        calls ?s2 @ new_calls ?s2 (ClosePeripheralsAndHandlers failing ?s2)"
      by (simp only: close_calls_after)
    have no_wait: "wait_calls (calls (ClosePeripheralsAndHandlers failing ?s2)) = 0"
      by (subst after) (simp only: wait_calls_append before close_calls_after)
    have "close_calls (calls (ClosePeripheralsAndHandlers failing ?s2)) =
        close_calls (new_calls ?s2 (ClosePeripheralsAndHandlers failing ?s2))"
      by (subst after) (simp only: close_calls_append before append_Nil)
    then have nine: "length (close_calls (calls (ClosePeripheralsAndHandlers failing ?s2))) = 9"
      by (simp add: close_log)
    from returns no_wait nine
    show "main env its failing = Some (0, ClosePeripheralsAndHandlers failing ?s2) \<and>
      wait_calls (calls (ClosePeripheralsAndHandlers failing ?s2)) = 0 \<and>
      length (close_calls (calls (ClosePeripheralsAndHandlers failing ?s2))) = 9"
      by (intro conjI)
  qed
  from status requested init_fails_iff [of env initial_state] failed show ?thesis
    by (intro conjI)
qed

theorem C5_exit_status_zero_witness:
  "fst (InitPeripheralsAndHandlers epoll_fails initial_state) \<noteq> 0 \<and>
   main epoll_fails [(False, wait_ready (StepperTick 0))] [] =
     Some (0, ClosePeripheralsAndHandlers []
       ((snd (InitPeripheralsAndHandlers epoll_fails initial_state))\<lparr>terminationRequired := True\<rparr>)) \<and>
   wait_calls (calls (ClosePeripheralsAndHandlers []
       ((snd (InitPeripheralsAndHandlers epoll_fails initial_state))\<lparr>terminationRequired := True\<rparr>))) = 0 \<and>
   fst (InitPeripheralsAndHandlers all_open initial_state) = 0 \<and>
   (\<exists>s'. main all_open [(False, wait_ready (StepperTick 0)), (True, wait_no_event)] [] = Some (0, s'))"
proof -
  let ?its = "[(False, wait_ready (StepperTick 0)), (True, wait_no_event)]"
  have a: "fst (InitPeripheralsAndHandlers epoll_fails initial_state) \<noteq> 0"
    by (simp add: epoll_fails_def all_open_def InitPeripheralsAndHandlers_def
        log_call_def initial_state_def Let_def)
  have b: "\<exists>it\<in>set ?its. fst it"
    by simp
  have c: "fst (InitPeripheralsAndHandlers all_open initial_state) = 0"
    by (simp add: all_open_def InitPeripheralsAndHandlers_def log_call_def Let_def)
  note failed = C5_exit_status_zero [of epoll_fails "[(False, wait_ready (StepperTick 0))]" "[]"
    0 initial_state, THEN conjunct2, THEN conjunct2, THEN conjunct2, THEN mp, OF a]
  note requested = C5_exit_status_zero [of all_open ?its "[]" 0 initial_state,
    THEN conjunct2, THEN conjunct1, THEN mp, OF b]
  from a failed [THEN conjunct1] failed [THEN conjunct2, THEN conjunct1] c requested
  show ?thesis
    by (intro conjI)
qed

text \<open>
  C6 as stated fails: after a start-up that opened the epoll handle first (descriptor 3),
  shutdown passes the epoll handle to the first release call, not the last, and the
  order of the release calls is not the reverse of the order of acquisition.
\<close>

theorem C6_release_order_counterexample:
  "acquired_fds (calls running_state) = [3, 4, 5, 6, 7, 8, 9, 10, 11] \<and>
   epollFd running_state = 3 \<and>
   map fst (close_calls (new_calls running_state (ClosePeripheralsAndHandlers [] running_state))) =
     [3, 5, 6, 4, 11, 10, 9, 8, 7] \<and>
   map fst (close_calls (new_calls running_state (ClosePeripheralsAndHandlers [] running_state))) \<noteq>
     rev (acquired_fds (calls running_state))"
proof -
  have fds: "handles_in_close_order running_state = [3, 5, 6, 4, 11, 10, 9, 8, 7] \<and>
      epollFd running_state = 3 \<and>
      acquired_fds (calls running_state) = [3, 4, 5, 6, 7, 8, 9, 10, 11]"
    by (simp add: running_state_def all_open_def InitPeripheralsAndHandlers_def
        log_call_def initial_state_def Let_def handles_in_close_order_def)
  have "map fst (close_calls (new_calls running_state
      (ClosePeripheralsAndHandlers [] running_state))) = handles_in_close_order running_state"
    by (simp add: close_log handles_in_close_order_def)
  with fds show ?thesis
    by simp
qed

text \<open>
  C6, amended. Shutdown makes exactly nine calls, one release call for each descriptor
  variable, in the fixed order epoll handle, button timer, green LED, button line,
  stepper timer, IN1, IN2, IN3, IN4 (the epoll handle first), and changes no variable.
  The calls do not depend on which releases fail: no failure stops the later releases.
  When \<open>main\<close> returns, the non-negative descriptors passed to the release calls are,
  up to order, exactly the descriptors acquired at start-up, each once.
\<close>

theorem C6_release_calls:
  "close_calls (new_calls s (ClosePeripheralsAndHandlers failing s)) =
     [(epollFd s, ''Epoll''), (buttonPollTimerFd s, ''Button A Timer''),
      (greenLEDFd s, ''Green LED''), (button_A_GpioFd s, ''Button A GPIO''),
      (stepperMotorTimerFd s, ''Stepper motor timer event''),
      (IN1 s, ''IN1 GPIO''), (IN2 s, ''IN2 GPIO''), (IN3 s, ''IN3 GPIO''), (IN4 s, ''IN4 GPIO'')] \<and>
   length (new_calls s (ClosePeripheralsAndHandlers failing s)) = 9 \<and>
   (ClosePeripheralsAndHandlers failing s)\<lparr>calls := calls s\<rparr> = s \<and>
   (main env its failing = Some (r, sf) \<longrightarrow>
      map fst (close_calls (calls sf)) = handles_in_close_order sf \<and>
      mset (filter (\<lambda>fd. 0 \<le> fd) (map fst (close_calls (calls sf)))) =
        mset (acquired_fds (calls sf)))"
proof -
  have "main env its failing = Some (r, sf) \<longrightarrow>
      map fst (close_calls (calls sf)) = handles_in_close_order sf \<and>
      mset (filter (\<lambda>fd. 0 \<le> fd) (map fst (close_calls (calls sf)))) =
        mset (acquired_fds (calls sf))"
    by (rule impI) (rule main_releases)
  with close_log [of s failing, THEN conjunct1]
    close_log [of s failing, THEN conjunct2, THEN conjunct1]
    close_log [of s failing, THEN conjunct2, THEN conjunct2]
  show ?thesis
    by (intro conjI)
qed

theorem C6_release_calls_witness:
  "main all_open [(True, wait_no_event)] [3] =
     Some (0, ClosePeripheralsAndHandlers [3] (main_loop_body (True, wait_no_event) running_state)) \<and>
   map fst (close_calls (calls
       (ClosePeripheralsAndHandlers [3] (main_loop_body (True, wait_no_event) running_state)))) =
     handles_in_close_order
       (ClosePeripheralsAndHandlers [3] (main_loop_body (True, wait_no_event) running_state)) \<and>
   mset (filter (\<lambda>fd. 0 \<le> fd) (map fst (close_calls (calls
       (ClosePeripheralsAndHandlers [3] (main_loop_body (True, wait_no_event) running_state)))))) =
     mset (acquired_fds (calls
       (ClosePeripheralsAndHandlers [3] (main_loop_body (True, wait_no_event) running_state))))"
proof -
  let ?it = "(True, wait_no_event)"
  let ?sf = "ClosePeripheralsAndHandlers [3] (main_loop_body ?it running_state)"
  have ok: "fst (InitPeripheralsAndHandlers all_open initial_state) = 0"
    by (simp add: all_open_def InitPeripheralsAndHandlers_def log_call_def Let_def)
  have clear: "\<not> terminationRequired running_state"
    by (simp add: running_state_def InitPeripheralsAndHandlers_def all_open_def
        initial_state_def log_call_def Let_def)
  have "terminationRequired (main_loop_body ?it running_state)"
    by (rule body_after_signal) simp
  with clear have loop: "main_loop [?it] running_state = Some (main_loop_body ?it running_state)"
    by simp
  from ok have init: "InitPeripheralsAndHandlers all_open initial_state = (0, running_state)"
    by (simp add: running_state_def prod_eq_iff)
  have a: "main all_open [?it] [3] = Some (0, ?sf)"
    unfolding main_def init by (simp add: loop del: main_loop.simps)
  note released = C6_release_calls [of initial_state "[3]" all_open "[?it]" 0 ?sf,
    THEN conjunct2, THEN conjunct2, THEN conjunct2, THEN mp, OF a]
  from a released [THEN conjunct1] released [THEN conjunct2] show ?thesis
    by (intro conjI)
qed

end
